theory Spec2Isabelle
  imports Main
begin

section \<open>Data model of \<open>models/segmentation_models.py\<close>\<close>

text \<open>
  Python exceptions that reach the caller of the module: the failed \<open>assert\<close> of the
  constructor, a missing key of the validation batch, an out-of-range channel index
  in \<open>dice_coeff_values[:, -2]\<close>, and the \<open>ValueError\<close> of the loss function on a
  target whose size differs from the input's.
\<close>

datatype error = AssertionError string | KeyError string | IndexError | ValueError

subsection \<open>Backbone networks\<close>

text \<open>
  A backbone is represented by the constructor call that built it. \<open>UNet\<close> carries
  \<open>num_classes\<close>, \<open>num_layers\<close>, \<open>features_start\<close>, \<open>bilinear\<close>;
  \<open>UNET_ResNet18\<close> carries \<open>num_classes\<close>. The DeepLabv3 network is a record of
  the parts that \<open>createDeepLabv3\<close> touches.
\<close>

datatype Conv2d = Conv2d (in_channels: int) (out_channels: int) (kernel_size: int)
  (stride: int) (padding: int) (bias: bool)

datatype DeepLabHead = DeepLabHead (head_in_channels: int) (head_num_classes: int)

record DeepLabV3 =
  pretrained :: bool
  progress :: bool
  backbone_conv1 :: Conv2d
  classifier :: DeepLabHead

datatype backbone =
    UNet int int int bool
  | UNET_ResNet18 int
  | DeepLabv3 DeepLabV3

text \<open>
  \<open>models.segmentation.deeplabv3_resnet101\<close> of torchvision, as loaded: a ResNet-101
  stem convolution and a head for the 21 classes of the pretrained weights.
\<close>

definition deeplabv3_resnet101 :: "bool \<Rightarrow> bool \<Rightarrow> DeepLabV3" where
  "deeplabv3_resnet101 pre prog =
     \<lparr>pretrained = pre, progress = prog,
      backbone_conv1 = Conv2d 3 64 7 2 3 False,
      classifier = DeepLabHead 2048 21\<rparr>"

text \<open>The number of output channels of a \<open>DeepLabHead\<close> is its \<open>num_classes\<close>.\<close>

definition head_out_channels :: "DeepLabHead \<Rightarrow> int" where
  "head_out_channels h = head_num_classes h"

definition createDeepLabv3 :: "DeepLabV3" where
  "createDeepLabv3 =
     (let model = deeplabv3_resnet101 True True;
          model = model\<lparr>backbone_conv1 := Conv2d 3 64 7 2 3 False\<rparr>;
          model = model\<lparr>classifier := DeepLabHead 2048 1\<rparr>
      in model)"

subsection \<open>The per-class metric output\<close>

text \<open>
  The value returned by the metric function \<open>seg_metric\<close>: a two-dimensional tensor of
  shape \<open>(batch, channels)\<close>, given by its channel count and its rows (one per
  example, each of length \<open>ncols\<close>).
\<close>

datatype 's tensor2 = Tensor2 (ncols: nat) (rows: "'s list list")

definition wf_tensor2 :: "'s tensor2 \<Rightarrow> bool" where
  "wf_tensor2 t = list_all (\<lambda>r. length r = ncols t) (rows t)"

text \<open>
  \<open>t[:, i]\<close>: a negative index counts from the end of the channel dimension; an index
  outside the dimension raises \<open>IndexError\<close>.
\<close>

definition select_channel :: "'s tensor2 \<Rightarrow> int \<Rightarrow> error + 's list" where
  "select_channel t i =
     (let n = int (ncols t);
          j = (if i < 0 then n + i else i)
      in if 0 \<le> j \<and> j < n then Inr (map (\<lambda>r. r ! nat j) (rows t)) else Inl IndexError)"

subsection \<open>The training module\<close>

text \<open>
  The attributes that \<open>SegModel.__init__\<close> assigns. \<open>'o\<close> is the type of the objects
  that flow through the network (images, masks, logits, network outputs), \<open>'s\<close> the
  type of floating-point scalars. The hyper-parameter snapshot taken by
  \<open>save_hyperparameters\<close> repeats the constructor arguments and is not a separate field.
\<close>

record ('o, 's) SegModel =
  num_classes :: int
  lr :: 's
  model_name :: string
  num_layers :: int
  features_start :: int
  bilinear :: bool
  dice_coeff :: "'o \<Rightarrow> 'o \<Rightarrow> 's tensor2"
  net :: backbone

text \<open>
  The first \<open>if\<close> of the constructor: it assigns \<open>self.net\<close> for \<open>"unet"\<close> and leaves
  the attribute unset otherwise.
\<close>

definition unet_branch :: "string \<Rightarrow> int \<Rightarrow> int \<Rightarrow> int \<Rightarrow> bool \<Rightarrow> backbone option" where
  "unet_branch name nc nl fs bl =
     (if name = ''unet'' then Some (UNet nc nl fs bl) else None)"

text \<open>
  The second statement of the constructor, a separate \<open>if\<close>/\<open>elif\<close>/\<open>else\<close>: both
  successful branches overwrite \<open>self.net\<close>, and the \<open>else\<close> branch aborts whatever
  the first \<open>if\<close> assigned.
\<close>

definition select_backbone :: "string \<Rightarrow> int \<Rightarrow> backbone option \<Rightarrow> error + backbone" where
  "select_backbone name nc net0 =
     (if name = ''unet_resnet_backbone'' then Inr (UNET_ResNet18 nc)
      else if name = ''deeplabv3'' then Inr (DeepLabv3 createDeepLabv3)
      else Inl (AssertionError ''No model selected''))"

definition SegModel_init ::
  "string \<Rightarrow> ('o \<Rightarrow> 'o \<Rightarrow> 's tensor2) \<Rightarrow> int \<Rightarrow> 's \<Rightarrow> int \<Rightarrow> int \<Rightarrow> bool
     \<Rightarrow> error + ('o, 's) SegModel" where
  "SegModel_init name seg_metric nc rate nl fs bl =
     (let net0 = unet_branch name nc nl fs bl
      in case select_backbone name nc net0 of
           Inl e \<Rightarrow> Inl e
         | Inr b \<Rightarrow>
             Inr \<lparr>num_classes = nc, lr = rate, model_name = name, num_layers = nl,
                  features_start = fs, bilinear = bl, dice_coeff = seg_metric, net = b\<rparr>)"

subsection \<open>The framework the module calls into\<close>

text \<open>
  The operations of the numerical framework that the module uses, as parameters.
  \<open>'b\<close> is the internal state of the backbone network that a call can read and
  change besides its weights: buffers such as the running statistics of batch
  normalisation, and the random generator that dropout draws from.
  \<^item> \<open>net_call\<close> is \<open>self.net(x)\<close>: from the backbone, its internal state and the input
    to the output and the internal state after the call;
  \<^item> \<open>getitem\<close> subscripts an output with a string key;
  \<^item> \<open>tensor_float\<close> is \<open>Tensor.float\<close>, \<open>tensor_shape\<close> is \<open>Tensor.size\<close>;
  \<^item> \<open>bce_mean\<close> is the mean over all elements of the binary cross-entropy with
    logits, on an input and a target of the same size;
  \<^item> \<open>torch_mean\<close> is \<open>torch.mean(\<cdot>, dim=0)\<close> of a one-dimensional tensor.
\<close>

record ('o, 's, 'b) framework =
  net_call :: "backbone \<Rightarrow> 'b \<Rightarrow> 'o \<Rightarrow> 'o \<times> 'b"
  getitem :: "'o \<Rightarrow> string \<Rightarrow> 'o"
  tensor_float :: "'o \<Rightarrow> 'o"
  tensor_shape :: "'o \<Rightarrow> nat list"
  bce_mean :: "'o \<Rightarrow> 'o \<Rightarrow> 's"
  torch_mean :: "'s list \<Rightarrow> 's"

text \<open>
  \<open>F.binary_cross_entropy_with_logits(input, target)\<close> with its default mean
  reduction: the library raises \<open>ValueError\<close> unless the target has the size of the
  input.
\<close>

definition binary_cross_entropy_with_logits ::
  "('o, 's, 'b) framework \<Rightarrow> 'o \<Rightarrow> 'o \<Rightarrow> error + 's" where
  "binary_cross_entropy_with_logits fw inp target =
     (if tensor_shape fw target \<noteq> tensor_shape fw inp then Inl ValueError
      else Inr (bce_mean fw inp target))"

text \<open>
  \<open>SegModel.forward\<close>, on the internal state of the backbone: the output, and the
  internal state the backbone call leaves.
\<close>

definition forward ::
  "('o, 's, 'b) framework \<Rightarrow> ('o, 's) SegModel \<Rightarrow> 'o \<Rightarrow> 'b \<Rightarrow> 'o \<times> 'b" where
  "forward fw m x bs =
     (if model_name m = ''deeplabv3''
      then (let (y, bs') = net_call fw (net m) bs x in (getitem fw y ''out'', bs'))
      else net_call fw (net m) bs x)"

subsection \<open>Step functions\<close>

text \<open>
  A measurement recorded with \<open>self.log(name, value, ...)\<close>, with the keyword
  arguments the module uses; \<open>on_epoch\<close> is \<open>None\<close> when it is not given.
\<close>

record 's log_entry =
  log_name :: string
  log_value :: 's
  prog_bar :: bool
  on_epoch :: "bool option"
  sync_dist :: bool

text \<open>
  The state a step runs in: the attributes of the module, the internal state of its
  backbone, and the measurements recorded so far.
\<close>

record ('o, 's, 'b) run_state =
  self :: "('o, 's) SegModel"
  net_state :: 'b
  logged :: "'s log_entry list"

definition self_log ::
  "string \<Rightarrow> 's \<Rightarrow> bool \<Rightarrow> bool option \<Rightarrow> bool
     \<Rightarrow> ('o, 's, 'b) run_state \<Rightarrow> ('o, 's, 'b) run_state" where
  "self_log n v pb oe sd st =
     st\<lparr>logged := logged st @
          [\<lparr>log_name = n, log_value = v, prog_bar = pb, on_epoch = oe, sync_dist = sd\<rparr>]\<rparr>"

text \<open>\<open>self(img)\<close>: the forward pass on the module's own backbone state.\<close>

definition self_call ::
  "('o, 's, 'b) framework \<Rightarrow> 'o \<Rightarrow> ('o, 's, 'b) run_state \<Rightarrow> 'o \<times> ('o, 's, 'b) run_state" where
  "self_call fw x st =
     (let (y, bs') = forward fw (self st) x (net_state st)
      in (y, st\<lparr>net_state := bs'\<rparr>))"

text \<open>The values of the dictionaries that the steps return: a scalar or a dictionary.\<close>

datatype 's pyval = Scalar 's | Dict "(string \<times> 's pyval) list"

text \<open>\<open>torch.mean(dice_coeff_values[:, -2], dim=0)\<close>\<close>

definition mean_dice :: "('o, 's, 'b) framework \<Rightarrow> 's tensor2 \<Rightarrow> error + 's" where
  "mean_dice fw dice_coeff_values =
     (case select_channel dice_coeff_values (- 2) of
        Inl e \<Rightarrow> Inl e
      | Inr chan \<Rightarrow> Inr (torch_mean fw chan))"

definition training_step ::
  "('o, 's, 'b) framework \<Rightarrow> 'o \<times> 'o \<Rightarrow> int \<Rightarrow> ('o, 's, 'b) run_state
     \<Rightarrow> (error + 's pyval) \<times> ('o, 's, 'b) run_state" where
  "training_step fw batch batch_nb st =
     (let (img, mask) = batch;
          img = tensor_float fw img;
          (out, st) = self_call fw img st
      in case binary_cross_entropy_with_logits fw out mask of
           Inl e \<Rightarrow> (Inl e, st)
         | Inr loss \<Rightarrow>
     (let log_dict = Dict [(''Binary Cross Entropy Loss'', Scalar loss)];
          st = self_log ''Binary Cross Entropy Loss - Training'' loss False None False st
      in (Inr (Dict [(''loss'', Scalar loss), (''log'', log_dict),
                     (''progress_bar'', log_dict)]), st)))"

definition validation_step ::
  "('o, 's, 'b) framework \<Rightarrow> (string \<rightharpoonup> 'o \<times> 'o) \<Rightarrow> int \<Rightarrow> ('o, 's, 'b) run_state
     \<Rightarrow> (error + 's pyval) \<times> ('o, 's, 'b) run_state" where
  "validation_step fw batch batch_idx st =
     (case batch ''loader_val_source'' of
        None \<Rightarrow> (Inl (KeyError ''loader_val_source''), st)
      | Some batch_source \<Rightarrow>
     (case batch ''loader_target_test'' of
        None \<Rightarrow> (Inl (KeyError ''loader_target_test''), st)
      | Some batch_target \<Rightarrow>
     (let (img, mask) = batch_source;
          (seg_out, st) = self_call fw img st
      in case binary_cross_entropy_with_logits fw seg_out mask of
           Inl e \<Rightarrow> (Inl e, st)
         | Inr loss_val \<Rightarrow>
     (let dice_coeff_values = dice_coeff (self st) seg_out mask
      in case mean_dice fw dice_coeff_values of
           Inl e \<Rightarrow> (Inl e, st)
         | Inr curr_mean_dice \<Rightarrow>
     (let st = self_log ''Validation Loss - Source Data'' loss_val True (Some True) False st;
          st = self_log ''Dice Score - Source Data'' curr_mean_dice True (Some True) False st;
          (img, mask) = batch_target;
          (seg_out, st) = self_call fw img st;
          dice_coeff_values = dice_coeff (self st) seg_out mask
      in case mean_dice fw dice_coeff_values of
           Inl e \<Rightarrow> (Inl e, st)
         | Inr curr_mean_dice \<Rightarrow>
     (let st = self_log ''Dice Score on Target Test Data'' curr_mean_dice True (Some True) True st
      in (Inr (Dict [(''val_loss'', Scalar loss_val)]), st)))))))"

definition test_step ::
  "('o, 's, 'b) framework \<Rightarrow> 'o \<times> 'o \<Rightarrow> int \<Rightarrow> ('o, 's, 'b) run_state
     \<Rightarrow> (error + 's pyval) \<times> ('o, 's, 'b) run_state" where
  "test_step fw batch batch_idx st =
     (let (img, mask) = batch;
          (seg_out, st) = self_call fw img st;
          dice_coeff_values = dice_coeff (self st) seg_out mask
      in case mean_dice fw dice_coeff_values of
           Inl e \<Rightarrow> (Inl e, st)
         | Inr curr_mean_dice \<Rightarrow>
     (let st = self_log ''FINAL Dice Score on Target Test Data'' curr_mean_dice True (Some True) True st
      in (Inr (Dict [(''curr_mean_dice'', Scalar curr_mean_dice)]), st)))"

subsection \<open>A concrete instance\<close>

text \<open>
  A small instance on which the definitions can be evaluated. Objects are lists of
  integers, one entry per example of the batch, and their size is their length. The
  backbone doubles every entry, subscripting with \<open>'out'\<close> adds 100 to every entry,
  the float cast adds 1, the loss is the mean of the differences of logits and mask,
  and the mean is the integer quotient of the sum by the length. In
  \<open>example_framework\<close> the backbone call leaves the internal state alone, as a network
  in evaluation mode does. In \<open>example_training_framework\<close> the output depends on the
  internal state and every call advances it, as dropout and batch normalisation do in
  training mode.
\<close>

definition example_framework :: "(int list, int, int) framework" where
  "example_framework =
     \<lparr>net_call = (\<lambda>b s x. (map (\<lambda>v. 2 * v) x, s)),
      getitem = (\<lambda>y k. if k = ''out'' then map (\<lambda>v. v + 100) y else y),
      tensor_float = map (\<lambda>v. v + 1),
      tensor_shape = (\<lambda>x. [length x]),
      bce_mean = (\<lambda>out' msk. sum_list (map2 (\<lambda>a b. a - b) out' msk) div int (length out')),
      torch_mean = (\<lambda>xs. sum_list xs div int (length xs))\<rparr>"

definition example_training_framework :: "(int list, int, int) framework" where
  "example_training_framework =
     example_framework\<lparr>net_call := (\<lambda>b s x. (map (\<lambda>v. 2 * v + s) x, s + 1))\<rparr>"

text \<open>
  A metric with three channels per example, and one with a single channel per example.
\<close>

definition example_metric :: "int list \<Rightarrow> int list \<Rightarrow> int tensor2" where
  "example_metric out' msk = Tensor2 3 (map2 (\<lambda>a b. [a, a + b, b]) out' msk)"


definition example_module :: "string \<Rightarrow> backbone \<Rightarrow> (int list, int) SegModel" where
  "example_module name b =
     \<lparr>num_classes = 1, lr = 1, model_name = name, num_layers = 3, features_start = 64,
      bilinear = False, dice_coeff = example_metric, net = b\<rparr>"

definition example_state :: "string \<Rightarrow> backbone \<Rightarrow> (int list, int, int) run_state" where
  "example_state name b = \<lparr>self = example_module name b, net_state = 0, logged = []\<rparr>"


section \<open>Construction\<close>

lemma SegModel_init_resnet:
  "SegModel_init ''unet_resnet_backbone'' metric nc rate nl fs bl =
     Inr \<lparr>num_classes = nc, lr = rate, model_name = ''unet_resnet_backbone'',
          num_layers = nl, features_start = fs, bilinear = bl, dice_coeff = metric,
          net = UNET_ResNet18 nc\<rparr>"
  by (simp add: SegModel_init_def select_backbone_def)

lemma SegModel_init_deeplab:
  "SegModel_init ''deeplabv3'' metric nc rate nl fs bl =
     Inr \<lparr>num_classes = nc, lr = rate, model_name = ''deeplabv3'',
          num_layers = nl, features_start = fs, bilinear = bl, dice_coeff = metric,
          net = DeepLabv3 createDeepLabv3\<rparr>"
  by (simp add: SegModel_init_def select_backbone_def)

lemma SegModel_init_other:
  "name \<noteq> ''unet_resnet_backbone'' \<Longrightarrow> name \<noteq> ''deeplabv3'' \<Longrightarrow>
   SegModel_init name metric nc rate nl fs bl = Inl (AssertionError ''No model selected'')"
  by (simp add: SegModel_init_def select_backbone_def)

text \<open>
  Claim C1. Construction is meant to succeed for each of \<open>"unet"\<close>,
  \<open>"unet_resnet_backbone"\<close> and \<open>"deeplabv3"\<close>. For \<open>"unet"\<close> the code builds the
  encoder-decoder in the first \<open>if\<close> and then reaches the \<open>else\<close> of the second
  statement: construction ends in the assertion failure "No model selected", for every
  choice of the other parameters.
\<close>

theorem SegModel_init_unet_aborts:
  "SegModel_init ''unet'' metric nc rate nl fs bl = Inl (AssertionError ''No model selected'')
   \<and> unet_branch ''unet'' nc nl fs bl = Some (UNet nc nl fs bl)"
  by (simp add: SegModel_init_def select_backbone_def unet_branch_def)

lemma createDeepLabv3_eq:
  "createDeepLabv3 =
     \<lparr>pretrained = True, progress = True,
      backbone_conv1 = Conv2d 3 64 7 2 3 False,
      classifier = DeepLabHead 2048 1\<rparr>"
  by (simp add: createDeepLabv3_def deeplabv3_resnet101_def)

text \<open>
  Claim C2. For \<open>"deeplabv3"\<close> the new classification head is meant to have as many
  output channels as the configured \<open>num_classes\<close>. The code builds
  \<open>DeepLabHead(2048, num_classes=1)\<close>: constructed with \<open>num_classes = 2\<close>, the module
  records 2 classes and its head has 1 output channel.
\<close>

theorem deeplabv3_head_ignores_num_classes:
  "SegModel_init ''deeplabv3'' metric 2 rate nl fs bl =
     Inr \<lparr>num_classes = 2, lr = rate, model_name = ''deeplabv3'',
          num_layers = nl, features_start = fs, bilinear = bl, dice_coeff = metric,
          net = DeepLabv3 createDeepLabv3\<rparr>
   \<and> head_out_channels (classifier createDeepLabv3) = 1"
  by (simp add: SegModel_init_def select_backbone_def createDeepLabv3_eq
      head_out_channels_def)

text \<open>
  Claim C9. For \<open>"unet_resnet_backbone"\<close> and \<open>"deeplabv3"\<close> construction succeeds and
  the backbone does not depend on \<open>num_layers\<close>, \<open>features_start\<close> or \<open>bilinear\<close>:
  two constructions that differ only there have the same backbone. The first \<open>if\<close>
  hands these parameters to the \<open>UNet\<close> constructor, and it does so for \<open>"unet"\<close> only.
\<close>

theorem backbone_independent_of_unet_parameters:
  assumes "name \<in> {''unet_resnet_backbone'', ''deeplabv3''}"
  shows "\<exists>m m'. SegModel_init name metric nc rate nl fs bl = Inr m
           \<and> SegModel_init name metric nc rate nl' fs' bl' = Inr m'
           \<and> net m = net m'
           \<and> unet_branch name nc nl fs bl = None
           \<and> unet_branch ''unet'' nc nl fs bl = Some (UNet nc nl fs bl)"
  using assms
  by (auto simp add: SegModel_init_def select_backbone_def unet_branch_def)

theorem backbone_independent_of_unet_parameters_witness:
  "''deeplabv3'' \<in> {''unet_resnet_backbone'', ''deeplabv3''}
   \<and> (\<exists>m m'. SegModel_init ''deeplabv3'' example_metric 1 (1::int) 3 64 False = Inr m
           \<and> SegModel_init ''deeplabv3'' example_metric 1 (1::int) 5 32 True = Inr m'
           \<and> net m = net m'
           \<and> unet_branch ''deeplabv3'' 1 3 64 False = None
           \<and> unet_branch ''unet'' 1 3 64 False = Some (UNet 1 3 64 False))"
  using backbone_independent_of_unet_parameters
          [of "''deeplabv3''" example_metric 1 "1::int" 3 64 False 5 32 True]
  by simp

section \<open>Forward pass\<close>

text \<open>
  Claim C6. The forward pass returns the backbone's output subscripted with the key
  \<open>'out'\<close> when the model identifier is \<open>"deeplabv3"\<close>, and the backbone's output
  itself for every other identifier; in both cases the backbone is called once, on the
  input as given.
\<close>

theorem forward_extracts_out_for_deeplabv3_only:
  "(model_name m = ''deeplabv3'' \<longrightarrow>
      forward fw m x bs =
        (getitem fw (fst (net_call fw (net m) bs x)) ''out'', snd (net_call fw (net m) bs x)))
   \<and> (model_name m \<noteq> ''deeplabv3'' \<longrightarrow> forward fw m x bs = net_call fw (net m) bs x)"
  by (simp add: forward_def case_prod_beta)

theorem forward_extracts_out_for_deeplabv3_only_witness:
  "forward example_framework (example_module ''deeplabv3'' (DeepLabv3 createDeepLabv3))
     [5, 7] 0 = ([110, 114], 0)
   \<and> forward example_framework (example_module ''unet_resnet_backbone'' (UNET_ResNet18 1))
     [5, 7] 0 = ([10, 14], 0)"
  using forward_extracts_out_for_deeplabv3_only
          [of "example_module ''deeplabv3'' (DeepLabv3 createDeepLabv3)" example_framework
              "[5, 7]" 0]
        forward_extracts_out_for_deeplabv3_only
          [of "example_module ''unet_resnet_backbone'' (UNET_ResNet18 1)" example_framework
              "[5, 7]" 0]
  by (simp add: example_module_def example_framework_def)

section \<open>Step functions\<close>

lemma example_metric_wf: "wf_tensor2 (example_metric a b)"
  by (simp add: wf_tensor2_def example_metric_def list_all_iff) (auto dest: set_zip_leftD)

lemma select_second_to_last:
  "2 \<le> ncols t \<Longrightarrow>
   select_channel t (- 2) = Inr (map (\<lambda>r. r ! (ncols t - 2)) (rows t))"
  by (simp add: select_channel_def Let_def nat_diff_distrib')

lemma select_second_to_last_fails:
  "ncols t < 2 \<Longrightarrow> select_channel t (- 2) = Inl IndexError"
  by (simp add: select_channel_def Let_def)

lemma mean_dice_ok:
  "2 \<le> ncols t \<Longrightarrow>
   mean_dice fw t = Inr (torch_mean fw (map (\<lambda>r. r ! (ncols t - 2)) (rows t)))"
  by (simp add: mean_dice_def select_second_to_last)

lemma mean_dice_float_irrelevant:
  "mean_dice (fw\<lparr>tensor_float := f\<rparr>) t = mean_dice fw t"
  by (simp add: mean_dice_def split: sum.splits)

lemma forward_float_irrelevant:
  "forward (fw\<lparr>tensor_float := f\<rparr>) m x bs = forward fw m x bs"
  by (simp add: forward_def)

lemma bce_float_irrelevant:
  "binary_cross_entropy_with_logits (fw\<lparr>tensor_float := f\<rparr>) a b =
   binary_cross_entropy_with_logits fw a b"
  by (simp add: binary_cross_entropy_with_logits_def)

lemma self_call_float_irrelevant:
  "self_call (fw\<lparr>tensor_float := f\<rparr>) x st = self_call fw x st"
  by (simp add: self_call_def forward_float_irrelevant)

lemma self_call_eq:
  "self_call fw x st =
     (fst (forward fw (self st) x (net_state st)),
      st\<lparr>net_state := snd (forward fw (self st) x (net_state st))\<rparr>)"
  by (simp add: self_call_def case_prod_beta)

text \<open>The steps, with the forward pass and the recorded measurements written out.\<close>

lemma training_step_eq:
  "training_step fw (img, msk) batch_nb st =
     (case binary_cross_entropy_with_logits fw
             (fst (forward fw (self st) (tensor_float fw img) (net_state st))) msk of
        Inl e \<Rightarrow>
          (Inl e,
           st\<lparr>net_state := snd (forward fw (self st) (tensor_float fw img) (net_state st))\<rparr>)
      | Inr loss \<Rightarrow>
          (Inr (Dict [(''loss'', Scalar loss),
                      (''log'', Dict [(''Binary Cross Entropy Loss'', Scalar loss)]),
                      (''progress_bar'', Dict [(''Binary Cross Entropy Loss'', Scalar loss)])]),
           st\<lparr>net_state := snd (forward fw (self st) (tensor_float fw img) (net_state st)),
              logged := logged st @
                [\<lparr>log_name = ''Binary Cross Entropy Loss - Training'', log_value = loss,
                  prog_bar = False, on_epoch = None, sync_dist = False\<rparr>]\<rparr>))"
  by (simp add: training_step_def self_call_eq self_log_def Let_def split: sum.splits)

lemma test_step_eq:
  "test_step fw (img, msk) batch_idx st =
     (case mean_dice fw
             (dice_coeff (self st) (fst (forward fw (self st) img (net_state st))) msk) of
        Inl e \<Rightarrow>
          (Inl e, st\<lparr>net_state := snd (forward fw (self st) img (net_state st))\<rparr>)
      | Inr d \<Rightarrow>
          (Inr (Dict [(''curr_mean_dice'', Scalar d)]),
           st\<lparr>net_state := snd (forward fw (self st) img (net_state st)),
              logged := logged st @
                [\<lparr>log_name = ''FINAL Dice Score on Target Test Data'', log_value = d,
                  prog_bar = True, on_epoch = Some True, sync_dist = True\<rparr>]\<rparr>))"
  by (simp add: test_step_def self_call_eq self_log_def Let_def split: sum.splits)

lemma validation_step_eq:
  assumes src: "batch ''loader_val_source'' = Some (img_s, msk_s)"
    and tgt: "batch ''loader_target_test'' = Some (img_t, msk_t)"
    and bs1: "bs1 = snd (forward fw (self st) img_s (net_state st))"
    and out_s: "out_s = fst (forward fw (self st) img_s (net_state st))"
    and bs2: "bs2 = snd (forward fw (self st) img_t bs1)"
    and out_t: "out_t = fst (forward fw (self st) img_t bs1)"
  shows "validation_step fw batch batch_idx st =
     (case binary_cross_entropy_with_logits fw out_s msk_s of
        Inl e \<Rightarrow> (Inl e, st\<lparr>net_state := bs1\<rparr>)
      | Inr loss_val \<Rightarrow>
     (case mean_dice fw (dice_coeff (self st) out_s msk_s) of
        Inl e \<Rightarrow> (Inl e, st\<lparr>net_state := bs1\<rparr>)
      | Inr dice_s \<Rightarrow>
     (case mean_dice fw (dice_coeff (self st) out_t msk_t) of
        Inl e \<Rightarrow>
          (Inl e,
           st\<lparr>net_state := bs2,
              logged := logged st @
                [\<lparr>log_name = ''Validation Loss - Source Data'', log_value = loss_val,
                  prog_bar = True, on_epoch = Some True, sync_dist = False\<rparr>,
                 \<lparr>log_name = ''Dice Score - Source Data'', log_value = dice_s,
                  prog_bar = True, on_epoch = Some True, sync_dist = False\<rparr>]\<rparr>)
      | Inr dice_t \<Rightarrow>
          (Inr (Dict [(''val_loss'', Scalar loss_val)]),
           st\<lparr>net_state := bs2,
              logged := logged st @
                [\<lparr>log_name = ''Validation Loss - Source Data'', log_value = loss_val,
                  prog_bar = True, on_epoch = Some True, sync_dist = False\<rparr>,
                 \<lparr>log_name = ''Dice Score - Source Data'', log_value = dice_s,
                  prog_bar = True, on_epoch = Some True, sync_dist = False\<rparr>,
                 \<lparr>log_name = ''Dice Score on Target Test Data'', log_value = dice_t,
                  prog_bar = True, on_epoch = Some True, sync_dist = True\<rparr>]\<rparr>))))"
  by (simp add: validation_step_def src tgt bs1 out_s bs2 out_t self_call_eq self_log_def
      Let_def split: sum.splits)

lemma validation_step_missing_source:
  "batch ''loader_val_source'' = None \<Longrightarrow>
   validation_step fw batch batch_idx st = (Inl (KeyError ''loader_val_source''), st)"
  by (simp add: validation_step_def)

lemma validation_step_missing_target:
  "batch ''loader_val_source'' = Some b \<Longrightarrow> batch ''loader_target_test'' = None \<Longrightarrow>
   validation_step fw batch batch_idx st = (Inl (KeyError ''loader_target_test''), st)"
  by (simp add: validation_step_def)







text \<open>
  Claim C5, as the code has it. When the metric output has a second-to-last channel,
  the test step records the mean over the batch of that channel as the measurement
  "FINAL Dice Score on Target Test Data" and returns a dictionary that holds the same
  value under the key \<open>"curr_mean_dice"\<close>.
\<close>

theorem test_step_result:
  assumes d: "d = dice_coeff (self st) (fst (forward fw (self st) img (net_state st))) msk"
    and ch: "2 \<le> ncols d"
  shows "test_step fw (img, msk) batch_idx st =
     (let curr_mean_dice = torch_mean fw (map (\<lambda>r. r ! (ncols d - 2)) (rows d))
      in (Inr (Dict [(''curr_mean_dice'', Scalar curr_mean_dice)]),
          st\<lparr>net_state := snd (forward fw (self st) img (net_state st)),
             logged := logged st @
               [\<lparr>log_name = ''FINAL Dice Score on Target Test Data'',
                 log_value = curr_mean_dice,
                 prog_bar = True, on_epoch = Some True, sync_dist = True\<rparr>]\<rparr>))"
proof -
  have m: "mean_dice fw (dice_coeff (self st) (fst (forward fw (self st) img (net_state st))) msk) =
             Inr (torch_mean fw (map (\<lambda>r. r ! (ncols d - 2)) (rows d)))"
    using ch mean_dice_ok [of d fw] by (simp add: d)
  show ?thesis
    by (simp add: test_step_eq m Let_def)
qed

theorem test_step_result_witness:
  "test_step example_framework ([5, 7], [3, 1]) 0
     (example_state ''unet_resnet_backbone'' (UNET_ResNet18 1)) =
   (Inr (Dict [(''curr_mean_dice'', Scalar 14)]),
    \<lparr>self = example_module ''unet_resnet_backbone'' (UNET_ResNet18 1), net_state = 0,
     logged =
       [\<lparr>log_name = ''FINAL Dice Score on Target Test Data'', log_value = 14,
         prog_bar = True, on_epoch = Some True, sync_dist = True\<rparr>]\<rparr>)"
  using test_step_result
          [of "example_metric [10, 14] [3, 1]"
              "example_state ''unet_resnet_backbone'' (UNET_ResNet18 1)"
              example_framework "[5, 7]" "[3, 1]" 0]
  by (simp add: example_state_def example_module_def example_framework_def
      example_metric_def forward_def Let_def)

text \<open>
  Claim C5 as stated has the test step return the scalar itself. On the example
  instance the mean of the second-to-last channel is 14, and the step returns the
  dictionary \<open>{"curr_mean_dice": 14}\<close>, which is not the scalar 14.
\<close>

theorem test_step_returns_dict_counterexample:
  "fst (test_step example_framework ([5, 7], [3, 1]) 0
          (example_state ''unet_resnet_backbone'' (UNET_ResNet18 1))) =
     Inr (Dict [(''curr_mean_dice'', Scalar 14)])
   \<and> fst (test_step example_framework ([5, 7], [3, 1]) 0
          (example_state ''unet_resnet_backbone'' (UNET_ResNet18 1))) \<noteq> Inr (Scalar 14)"
  by (simp add: test_step_eq mean_dice_def select_channel_def Let_def
      forward_def example_framework_def example_state_def example_module_def
      example_metric_def)

text \<open>
  Claim C7. For a module with \<open>num_classes = 1\<close> whose metric function always returns
  at least two channels, selecting the second-to-last channel succeeds: the test step
  returns a result, the validation step never ends in \<open>IndexError\<close>, and it returns a
  result on every batch that has both entries and a source mask of the size of the
  forward output.
\<close>

theorem second_to_last_channel_no_index_error:
  assumes nc: "num_classes (self st) = 1"
    and ch: "\<And>out' msk'. 2 \<le> ncols (dice_coeff (self st) out' msk')"
  shows "select_channel (dice_coeff (self st) x y) (- 2) \<noteq> Inl IndexError
     \<and> (\<exists>r. fst (test_step fw (img, msk) batch_idx st) = Inr r)
     \<and> fst (validation_step fw batch batch_idx st) \<noteq> Inl IndexError
     \<and> (batch ''loader_val_source'' = Some (img_s, msk_s)
          \<and> batch ''loader_target_test'' \<noteq> None
          \<and> tensor_shape fw msk_s =
              tensor_shape fw (fst (forward fw (self st) img_s (net_state st)))
          \<longrightarrow> (\<exists>r. fst (validation_step fw batch batch_idx st) = Inr r))"
proof -
  have m: "\<And>a b. mean_dice fw (dice_coeff (self st) a b) =
             Inr (torch_mean fw (map (\<lambda>r. r ! (ncols (dice_coeff (self st) a b) - 2))
                                     (rows (dice_coeff (self st) a b))))"
    using ch by (simp add: mean_dice_ok)
  have 1: "select_channel (dice_coeff (self st) x y) (- 2) \<noteq> Inl IndexError"
    using ch [of x y] by (simp add: select_second_to_last)
  have 2: "\<exists>r. fst (test_step fw (img, msk) batch_idx st) = Inr r"
    by (simp add: test_step_eq m)
  have 3: "fst (validation_step fw batch batch_idx st) \<noteq> Inl IndexError"
  proof (cases "batch ''loader_val_source''")
    case None
    then show ?thesis by (simp add: validation_step_missing_source)
  next
    case (Some bsrc)
    show ?thesis
    proof (cases "batch ''loader_target_test''")
      case None
      with Some show ?thesis by (simp add: validation_step_missing_target)
    next
      case (Some btgt)
      obtain i_s m_s where bsrc: "bsrc = (i_s, m_s)" by (cases bsrc)
      obtain i_t m_t where btgt: "btgt = (i_t, m_t)" by (cases btgt)
      have src: "batch ''loader_val_source'' = Some (i_s, m_s)"
        using \<open>batch ''loader_val_source'' = Some bsrc\<close> bsrc by simp
      have tgt: "batch ''loader_target_test'' = Some (i_t, m_t)"
        using Some btgt by simp
      show ?thesis
        by (simp add: validation_step_eq [OF src tgt refl refl refl refl] m
            binary_cross_entropy_with_logits_def)
    qed
  qed
  have 4: "batch ''loader_val_source'' = Some (img_s, msk_s)
          \<and> batch ''loader_target_test'' \<noteq> None
          \<and> tensor_shape fw msk_s =
              tensor_shape fw (fst (forward fw (self st) img_s (net_state st)))
          \<longrightarrow> (\<exists>r. fst (validation_step fw batch batch_idx st) = Inr r)"
  proof (intro impI, elim conjE)
    assume src: "batch ''loader_val_source'' = Some (img_s, msk_s)"
      and t: "batch ''loader_target_test'' \<noteq> None"
      and shp: "tensor_shape fw msk_s =
                  tensor_shape fw (fst (forward fw (self st) img_s (net_state st)))"
    from t obtain i_t m_t where tgt: "batch ''loader_target_test'' = Some (i_t, m_t)"
      by (cases "batch ''loader_target_test''") auto
    show "\<exists>r. fst (validation_step fw batch batch_idx st) = Inr r"
      using shp
      by (simp add: validation_step_eq [OF src tgt refl refl refl refl] m
          binary_cross_entropy_with_logits_def)
  qed
  from 1 2 3 4 show ?thesis by blast
qed

theorem second_to_last_channel_no_index_error_witness:
  "num_classes (self (example_state ''unet_resnet_backbone'' (UNET_ResNet18 1))) = 1
   \<and> 2 \<le> ncols (dice_coeff (self (example_state ''unet_resnet_backbone'' (UNET_ResNet18 1)))
                  [10, 14] [3, 1])
   \<and> select_channel (example_metric [10, 14] [3, 1]) (- 2) \<noteq> Inl IndexError
   \<and> (\<exists>r. fst (test_step example_framework ([5, 7], [3, 1]) 0
                 (example_state ''unet_resnet_backbone'' (UNET_ResNet18 1))) = Inr r)
   \<and> fst (validation_step example_framework
            [''loader_val_source'' \<mapsto> ([5, 7], [3, 1]), ''loader_target_test'' \<mapsto> ([7, 9], [1, 2])] 0
            (example_state ''unet_resnet_backbone'' (UNET_ResNet18 1))) \<noteq> Inl IndexError
   \<and> (\<exists>r. fst (validation_step example_framework
            [''loader_val_source'' \<mapsto> ([5, 7], [3, 1]), ''loader_target_test'' \<mapsto> ([7, 9], [1, 2])] 0
            (example_state ''unet_resnet_backbone'' (UNET_ResNet18 1))) = Inr r)"
proof -
  let ?st = "example_state ''unet_resnet_backbone'' (UNET_ResNet18 1)"
  let ?b = "[''loader_val_source'' \<mapsto> ([5::int, 7], [3::int, 1]),
             ''loader_target_test'' \<mapsto> ([7, 9], [1, 2])]"
  have nc: "num_classes (self ?st) = 1"
    by (simp add: example_state_def example_module_def)
  have ch: "\<And>out' msk'. 2 \<le> ncols (dice_coeff (self ?st) out' msk')"
    by (simp add: example_state_def example_module_def example_metric_def)
  have dc: "dice_coeff (self ?st) = example_metric"
    by (simp add: example_state_def example_module_def)
  have src: "?b ''loader_val_source'' = Some ([5, 7], [3, 1])" by simp
  have tgt: "?b ''loader_target_test'' \<noteq> None" by simp
  have shp: "tensor_shape example_framework [3, 1] =
             tensor_shape example_framework
               (fst (forward example_framework (self ?st) [5, 7] (net_state ?st)))"
    by (simp add: forward_def example_state_def example_module_def example_framework_def)
  note t = second_to_last_channel_no_index_error
             [of ?st "[10, 14]" "[3, 1]" example_framework "[5, 7]" "[3, 1]" 0 ?b
                 "[5, 7]" "[3, 1]", OF nc ch]
  from t have a: "select_channel (dice_coeff (self ?st) [10, 14] [3, 1]) (- 2) \<noteq> Inl IndexError"
    by (rule conjunct1)
  from t have b: "\<exists>r. fst (test_step example_framework ([5, 7], [3, 1]) 0 ?st) = Inr r"
    by (rule conjunct2 [THEN conjunct1])
  from t have c: "fst (validation_step example_framework ?b 0 ?st) \<noteq> Inl IndexError"
    by (rule conjunct2 [THEN conjunct2, THEN conjunct1])
  from t have "?b ''loader_val_source'' = Some ([5, 7], [3, 1])
          \<and> ?b ''loader_target_test'' \<noteq> None
          \<and> tensor_shape example_framework [3, 1] =
              tensor_shape example_framework
                (fst (forward example_framework (self ?st) [5, 7] (net_state ?st)))
          \<longrightarrow> (\<exists>r. fst (validation_step example_framework ?b 0 ?st) = Inr r)"
    by (rule conjunct2 [THEN conjunct2, THEN conjunct2])
  with src tgt shp
  have d: "\<exists>r. fst (validation_step example_framework ?b 0 ?st) = Inr r"
    by blast
  have a': "select_channel (example_metric [10, 14] [3, 1]) (- 2) \<noteq> Inl IndexError"
    using a unfolding dc .
  from nc ch [of "[10, 14]" "[3, 1]"] a' b c d show ?thesis by blast
qed

text \<open>
  Claim C8, as the code has it. No step assigns an attribute of the module: the only
  state a step changes is the internal state of the backbone, through the forward
  pass, and the recorded measurements. When the backbone call leaves that internal
  state as it found it, a second call of a step with the same inputs, on the state
  the first call left, returns the same value and records the same measurements as
  the first.
\<close>

theorem steps_repeatable:
  "self (snd (training_step fw b n st)) = self st
   \<and> self (snd (validation_step fw vb n st)) = self st
   \<and> self (snd (test_step fw b n st)) = self st
   \<and> ((\<forall>x. snd (net_call fw (net (self st)) (net_state st) x) = net_state st) \<longrightarrow>
        net_state (snd (training_step fw b n st)) = net_state st
      \<and> fst (training_step fw b n (snd (training_step fw b n st)))
          = fst (training_step fw b n st)
      \<and> drop (length (logged (snd (training_step fw b n st))))
          (logged (snd (training_step fw b n (snd (training_step fw b n st)))))
          = drop (length (logged st)) (logged (snd (training_step fw b n st)))
      \<and> net_state (snd (validation_step fw vb n st)) = net_state st
      \<and> fst (validation_step fw vb n (snd (validation_step fw vb n st)))
          = fst (validation_step fw vb n st)
      \<and> drop (length (logged (snd (validation_step fw vb n st))))
          (logged (snd (validation_step fw vb n (snd (validation_step fw vb n st)))))
          = drop (length (logged st)) (logged (snd (validation_step fw vb n st)))
      \<and> net_state (snd (test_step fw b n st)) = net_state st
      \<and> fst (test_step fw b n (snd (test_step fw b n st))) = fst (test_step fw b n st)
      \<and> drop (length (logged (snd (test_step fw b n st))))
          (logged (snd (test_step fw b n (snd (test_step fw b n st)))))
          = drop (length (logged st)) (logged (snd (test_step fw b n st))))"
proof -
  obtain img msk where b: "b = (img, msk)" by (cases b)
  have s1: "self (snd (training_step fw b n st)) = self st"
    by (simp add: b training_step_eq split: sum.splits)
  have s3: "self (snd (test_step fw b n st)) = self st"
    by (simp add: b test_step_eq split: sum.splits)
  have s2: "self (snd (validation_step fw vb n st)) = self st"
  proof (cases "vb ''loader_val_source''")
    case None
    then show ?thesis by (simp add: validation_step_missing_source)
  next
    case (Some bsrc)
    show ?thesis
    proof (cases "vb ''loader_target_test''")
      case None
      with Some show ?thesis by (simp add: validation_step_missing_target)
    next
      case (Some btgt)
      obtain i_s m_s where bsrc: "bsrc = (i_s, m_s)" by (cases bsrc)
      obtain i_t m_t where btgt: "btgt = (i_t, m_t)" by (cases btgt)
      have src: "vb ''loader_val_source'' = Some (i_s, m_s)"
        using \<open>vb ''loader_val_source'' = Some bsrc\<close> bsrc by simp
      have tgt: "vb ''loader_target_test'' = Some (i_t, m_t)"
        using Some btgt by simp
      show ?thesis
        by (simp add: validation_step_eq [OF src tgt refl refl refl refl] split: sum.splits)
    qed
  qed
  have p: "(\<forall>x. snd (net_call fw (net (self st)) (net_state st) x) = net_state st) \<longrightarrow>
        net_state (snd (training_step fw b n st)) = net_state st
      \<and> fst (training_step fw b n (snd (training_step fw b n st)))
          = fst (training_step fw b n st)
      \<and> drop (length (logged (snd (training_step fw b n st))))
          (logged (snd (training_step fw b n (snd (training_step fw b n st)))))
          = drop (length (logged st)) (logged (snd (training_step fw b n st)))
      \<and> net_state (snd (validation_step fw vb n st)) = net_state st
      \<and> fst (validation_step fw vb n (snd (validation_step fw vb n st)))
          = fst (validation_step fw vb n st)
      \<and> drop (length (logged (snd (validation_step fw vb n st))))
          (logged (snd (validation_step fw vb n (snd (validation_step fw vb n st)))))
          = drop (length (logged st)) (logged (snd (validation_step fw vb n st)))
      \<and> net_state (snd (test_step fw b n st)) = net_state st
      \<and> fst (test_step fw b n (snd (test_step fw b n st))) = fst (test_step fw b n st)
      \<and> drop (length (logged (snd (test_step fw b n st))))
          (logged (snd (test_step fw b n (snd (test_step fw b n st)))))
          = drop (length (logged st)) (logged (snd (test_step fw b n st)))"
  proof
    assume pure: "\<forall>x. snd (net_call fw (net (self st)) (net_state st) x) = net_state st"
    have f: "\<And>x. snd (forward fw (self st) x (net_state st)) = net_state st"
      using pure by (simp add: forward_def case_prod_beta)
    have tr: "net_state (snd (training_step fw b n st)) = net_state st
      \<and> fst (training_step fw b n (snd (training_step fw b n st)))
          = fst (training_step fw b n st)
      \<and> drop (length (logged (snd (training_step fw b n st))))
          (logged (snd (training_step fw b n (snd (training_step fw b n st)))))
          = drop (length (logged st)) (logged (snd (training_step fw b n st)))"
      by (simp add: b training_step_eq f split: sum.splits)
    have te: "net_state (snd (test_step fw b n st)) = net_state st
      \<and> fst (test_step fw b n (snd (test_step fw b n st))) = fst (test_step fw b n st)
      \<and> drop (length (logged (snd (test_step fw b n st))))
          (logged (snd (test_step fw b n (snd (test_step fw b n st)))))
          = drop (length (logged st)) (logged (snd (test_step fw b n st)))"
      by (simp add: b test_step_eq f split: sum.splits)
    have va: "net_state (snd (validation_step fw vb n st)) = net_state st
      \<and> fst (validation_step fw vb n (snd (validation_step fw vb n st)))
          = fst (validation_step fw vb n st)
      \<and> drop (length (logged (snd (validation_step fw vb n st))))
          (logged (snd (validation_step fw vb n (snd (validation_step fw vb n st)))))
          = drop (length (logged st)) (logged (snd (validation_step fw vb n st)))"
    proof (cases "vb ''loader_val_source''")
      case None
      then show ?thesis by (simp add: validation_step_missing_source)
    next
      case (Some bsrc)
      show ?thesis
      proof (cases "vb ''loader_target_test''")
        case None
        with Some show ?thesis by (simp add: validation_step_missing_target)
      next
        case (Some btgt)
        obtain i_s m_s where bsrc: "bsrc = (i_s, m_s)" by (cases bsrc)
        obtain i_t m_t where btgt: "btgt = (i_t, m_t)" by (cases btgt)
        have src: "vb ''loader_val_source'' = Some (i_s, m_s)"
          using \<open>vb ''loader_val_source'' = Some bsrc\<close> bsrc by simp
        have tgt: "vb ''loader_target_test'' = Some (i_t, m_t)"
          using Some btgt by simp
        show ?thesis
          by (simp add: validation_step_eq [OF src tgt refl refl refl refl] f
              split: sum.splits)
      qed
    qed
    from tr te va show "net_state (snd (training_step fw b n st)) = net_state st
      \<and> fst (training_step fw b n (snd (training_step fw b n st)))
          = fst (training_step fw b n st)
      \<and> drop (length (logged (snd (training_step fw b n st))))
          (logged (snd (training_step fw b n (snd (training_step fw b n st)))))
          = drop (length (logged st)) (logged (snd (training_step fw b n st)))
      \<and> net_state (snd (validation_step fw vb n st)) = net_state st
      \<and> fst (validation_step fw vb n (snd (validation_step fw vb n st)))
          = fst (validation_step fw vb n st)
      \<and> drop (length (logged (snd (validation_step fw vb n st))))
          (logged (snd (validation_step fw vb n (snd (validation_step fw vb n st)))))
          = drop (length (logged st)) (logged (snd (validation_step fw vb n st)))
      \<and> net_state (snd (test_step fw b n st)) = net_state st
      \<and> fst (test_step fw b n (snd (test_step fw b n st))) = fst (test_step fw b n st)
      \<and> drop (length (logged (snd (test_step fw b n st))))
          (logged (snd (test_step fw b n (snd (test_step fw b n st)))))
          = drop (length (logged st)) (logged (snd (test_step fw b n st)))"
      by blast
  qed
  from s1 s2 s3 p show ?thesis by blast
qed

theorem steps_repeatable_witness:
  "(\<forall>x. snd (net_call example_framework
                (net (self (example_state ''deeplabv3'' (DeepLabv3 createDeepLabv3))))
                (net_state (example_state ''deeplabv3'' (DeepLabv3 createDeepLabv3))) x) =
          net_state (example_state ''deeplabv3'' (DeepLabv3 createDeepLabv3)))
   \<and> self (snd (training_step example_framework ([5, 7], [3, 1]) 0
                  (example_state ''deeplabv3'' (DeepLabv3 createDeepLabv3)))) =
       self (example_state ''deeplabv3'' (DeepLabv3 createDeepLabv3))
   \<and> fst (training_step example_framework ([5, 7], [3, 1]) 0
            (snd (training_step example_framework ([5, 7], [3, 1]) 0
                    (example_state ''deeplabv3'' (DeepLabv3 createDeepLabv3))))) =
       fst (training_step example_framework ([5, 7], [3, 1]) 0
              (example_state ''deeplabv3'' (DeepLabv3 createDeepLabv3)))
   \<and> fst (test_step example_framework ([5, 7], [3, 1]) 0
            (snd (test_step example_framework ([5, 7], [3, 1]) 0
                    (example_state ''deeplabv3'' (DeepLabv3 createDeepLabv3))))) =
       fst (test_step example_framework ([5, 7], [3, 1]) 0
              (example_state ''deeplabv3'' (DeepLabv3 createDeepLabv3)))"
proof -
  let ?st = "example_state ''deeplabv3'' (DeepLabv3 createDeepLabv3)"
  have pure: "\<forall>x. snd (net_call example_framework (net (self ?st)) (net_state ?st) x) =
                    net_state ?st"
    by (simp add: example_framework_def example_state_def)
  note t = steps_repeatable [of example_framework "([5, 7], [3, 1])" 0 ?st Map.empty]
  from t have s: "self (snd (training_step example_framework ([5, 7], [3, 1]) 0 ?st)) = self ?st"
    by (rule conjunct1)
  from t pure have r:
    "fst (training_step example_framework ([5, 7], [3, 1]) 0
            (snd (training_step example_framework ([5, 7], [3, 1]) 0 ?st))) =
       fst (training_step example_framework ([5, 7], [3, 1]) 0 ?st)"
    by blast
  from t pure have r':
    "fst (test_step example_framework ([5, 7], [3, 1]) 0
            (snd (test_step example_framework ([5, 7], [3, 1]) 0 ?st))) =
       fst (test_step example_framework ([5, 7], [3, 1]) 0 ?st)"
    by blast
  from pure s r r' show ?thesis by blast
qed

text \<open>
  Claim C8 as stated holds for every call of a step with un-updated weights. With a
  backbone whose call advances its internal state and whose output depends on it, two
  consecutive calls of the training step on the same batch return the losses 112 and
  113, and the first call moves the internal state of the backbone from 0 to 1.
\<close>

theorem steps_repeatable_counterexample:
  "fst (training_step example_training_framework ([5, 7], [3, 1]) 0
          (example_state ''deeplabv3'' (DeepLabv3 createDeepLabv3))) =
     Inr (Dict [(''loss'', Scalar 112),
                (''log'', Dict [(''Binary Cross Entropy Loss'', Scalar 112)]),
                (''progress_bar'', Dict [(''Binary Cross Entropy Loss'', Scalar 112)])])
   \<and> fst (training_step example_training_framework ([5, 7], [3, 1]) 0
          (snd (training_step example_training_framework ([5, 7], [3, 1]) 0
                  (example_state ''deeplabv3'' (DeepLabv3 createDeepLabv3))))) =
     Inr (Dict [(''loss'', Scalar 113),
                (''log'', Dict [(''Binary Cross Entropy Loss'', Scalar 113)]),
                (''progress_bar'', Dict [(''Binary Cross Entropy Loss'', Scalar 113)])])
   \<and> net_state (example_state ''deeplabv3'' (DeepLabv3 createDeepLabv3)) = 0
   \<and> net_state (snd (training_step example_training_framework ([5, 7], [3, 1]) 0
                       (example_state ''deeplabv3'' (DeepLabv3 createDeepLabv3)))) = 1"
  by (simp add: training_step_eq binary_cross_entropy_with_logits_def forward_def
      example_training_framework_def example_framework_def example_state_def
      example_module_def)

text \<open>
  Claim C10. The training step runs the forward pass on the float cast of the batch
  image: its result and the backbone state it leaves are those of the forward pass on
  the cast image. The test and validation steps run the forward pass on their batch
  images as given, and do not depend on the float cast at all.
\<close>

theorem only_training_step_casts:
  "fst (training_step fw (img, msk) n st) =
     (case binary_cross_entropy_with_logits fw
             (fst (forward fw (self st) (tensor_float fw img) (net_state st))) msk of
        Inl e \<Rightarrow> Inl e
      | Inr loss \<Rightarrow>
          Inr (Dict [(''loss'', Scalar loss),
                     (''log'', Dict [(''Binary Cross Entropy Loss'', Scalar loss)]),
                     (''progress_bar'', Dict [(''Binary Cross Entropy Loss'', Scalar loss)])]))
   \<and> net_state (snd (training_step fw (img, msk) n st)) =
       snd (forward fw (self st) (tensor_float fw img) (net_state st))
   \<and> test_step (fw\<lparr>tensor_float := f\<rparr>) b n st = test_step fw b n st
   \<and> fst (test_step fw (img, msk) n st) =
     (case mean_dice fw
             (dice_coeff (self st) (fst (forward fw (self st) img (net_state st))) msk) of
        Inl e \<Rightarrow> Inl e
      | Inr d \<Rightarrow> Inr (Dict [(''curr_mean_dice'', Scalar d)]))
   \<and> net_state (snd (test_step fw (img, msk) n st)) =
       snd (forward fw (self st) img (net_state st))
   \<and> validation_step (fw\<lparr>tensor_float := f\<rparr>) vb n st = validation_step fw vb n st
   \<and> (vb ''loader_val_source'' = Some (img_s, msk_s)
        \<and> vb ''loader_target_test'' = Some (img_t, msk_t)
        \<and> fst (validation_step fw vb n st) = Inr r
      \<longrightarrow> r = Dict [(''val_loss'',
                      Scalar (bce_mean fw (fst (forward fw (self st) img_s (net_state st)))
                                msk_s))]
          \<and> net_state (snd (validation_step fw vb n st)) =
              snd (forward fw (self st) img_t
                     (snd (forward fw (self st) img_s (net_state st)))))"
proof -
  have tr1: "fst (training_step fw (img, msk) n st) =
     (case binary_cross_entropy_with_logits fw
             (fst (forward fw (self st) (tensor_float fw img) (net_state st))) msk of
        Inl e \<Rightarrow> Inl e
      | Inr loss \<Rightarrow>
          Inr (Dict [(''loss'', Scalar loss),
                     (''log'', Dict [(''Binary Cross Entropy Loss'', Scalar loss)]),
                     (''progress_bar'', Dict [(''Binary Cross Entropy Loss'', Scalar loss)])]))"
    by (simp add: training_step_eq split: sum.splits)
  have tr2: "net_state (snd (training_step fw (img, msk) n st)) =
       snd (forward fw (self st) (tensor_float fw img) (net_state st))"
    by (simp add: training_step_eq split: sum.splits)
  have te0: "test_step (fw\<lparr>tensor_float := f\<rparr>) b n st = test_step fw b n st"
    by (cases b)
       (simp add: test_step_eq forward_float_irrelevant mean_dice_float_irrelevant
          split: sum.splits)
  have te1: "fst (test_step fw (img, msk) n st) =
     (case mean_dice fw
             (dice_coeff (self st) (fst (forward fw (self st) img (net_state st))) msk) of
        Inl e \<Rightarrow> Inl e
      | Inr d \<Rightarrow> Inr (Dict [(''curr_mean_dice'', Scalar d)]))"
    by (simp add: test_step_eq split: sum.splits)
  have te2: "net_state (snd (test_step fw (img, msk) n st)) =
       snd (forward fw (self st) img (net_state st))"
    by (simp add: test_step_eq split: sum.splits)
  have va0: "validation_step (fw\<lparr>tensor_float := f\<rparr>) vb n st = validation_step fw vb n st"
    by (simp add: validation_step_def self_call_float_irrelevant bce_float_irrelevant
        mean_dice_float_irrelevant Let_def split: option.splits prod.splits sum.splits)
  have va1: "vb ''loader_val_source'' = Some (img_s, msk_s)
        \<and> vb ''loader_target_test'' = Some (img_t, msk_t)
        \<and> fst (validation_step fw vb n st) = Inr r
      \<longrightarrow> r = Dict [(''val_loss'',
                      Scalar (bce_mean fw (fst (forward fw (self st) img_s (net_state st)))
                                msk_s))]
          \<and> net_state (snd (validation_step fw vb n st)) =
              snd (forward fw (self st) img_t
                     (snd (forward fw (self st) img_s (net_state st))))"
  proof (intro impI, elim conjE)
    assume src: "vb ''loader_val_source'' = Some (img_s, msk_s)"
      and tgt: "vb ''loader_target_test'' = Some (img_t, msk_t)"
      and ok: "fst (validation_step fw vb n st) = Inr r"
    show "r = Dict [(''val_loss'',
                      Scalar (bce_mean fw (fst (forward fw (self st) img_s (net_state st)))
                                msk_s))]
          \<and> net_state (snd (validation_step fw vb n st)) =
              snd (forward fw (self st) img_t
                     (snd (forward fw (self st) img_s (net_state st))))"
      using ok
      by (auto simp add: validation_step_eq [OF src tgt refl refl refl refl]
          binary_cross_entropy_with_logits_def split: sum.splits if_splits)
  qed
  from tr1 tr2 te0 te1 te2 va0 va1 show ?thesis by blast
qed

theorem only_training_step_casts_witness:
  "fst (training_step example_framework ([5, 7], [3, 1]) 0
          (example_state ''unet_resnet_backbone'' (UNET_ResNet18 1))) =
     Inr (Dict [(''loss'', Scalar 12),
                (''log'', Dict [(''Binary Cross Entropy Loss'', Scalar 12)]),
                (''progress_bar'', Dict [(''Binary Cross Entropy Loss'', Scalar 12)])])
   \<and> fst (training_step (example_framework\<lparr>tensor_float := (\<lambda>x. x)\<rparr>) ([5, 7], [3, 1]) 0
          (example_state ''unet_resnet_backbone'' (UNET_ResNet18 1))) =
     Inr (Dict [(''loss'', Scalar 10),
                (''log'', Dict [(''Binary Cross Entropy Loss'', Scalar 10)]),
                (''progress_bar'', Dict [(''Binary Cross Entropy Loss'', Scalar 10)])])
   \<and> fst (test_step example_framework ([5, 7], [3, 1]) 0
          (example_state ''unet_resnet_backbone'' (UNET_ResNet18 1))) =
     Inr (Dict [(''curr_mean_dice'', Scalar 14)])
   \<and> test_step (example_framework\<lparr>tensor_float := (\<lambda>x. x)\<rparr>) ([5, 7], [3, 1]) 0
          (example_state ''unet_resnet_backbone'' (UNET_ResNet18 1)) =
     test_step example_framework ([5, 7], [3, 1]) 0
          (example_state ''unet_resnet_backbone'' (UNET_ResNet18 1))
   \<and> fst (validation_step example_framework
            [''loader_val_source'' \<mapsto> ([5, 7], [3, 1]), ''loader_target_test'' \<mapsto> ([7, 9], [1, 2])] 0
            (example_state ''unet_resnet_backbone'' (UNET_ResNet18 1))) =
     Inr (Dict [(''val_loss'', Scalar 10)])
   \<and> Dict [(''val_loss'', Scalar 10)] =
     Dict [(''val_loss'',
            Scalar (bce_mean example_framework
                      (fst (forward example_framework
                              (self (example_state ''unet_resnet_backbone'' (UNET_ResNet18 1)))
                              [5, 7]
                              (net_state (example_state ''unet_resnet_backbone''
                                            (UNET_ResNet18 1)))))
                      [3, 1]))]"
proof -
  let ?st = "example_state ''unet_resnet_backbone'' (UNET_ResNet18 1)"
  let ?b = "[''loader_val_source'' \<mapsto> ([5::int, 7], [3::int, 1]),
             ''loader_target_test'' \<mapsto> ([7, 9], [1, 2])]"
  let ?id = "example_framework\<lparr>tensor_float := (\<lambda>x. x)\<rparr>"
  have src: "?b ''loader_val_source'' = Some ([5, 7], [3, 1])" by simp
  have tgt: "?b ''loader_target_test'' = Some ([7, 9], [1, 2])" by simp
  have ok: "fst (validation_step example_framework ?b 0 ?st) =
              Inr (Dict [(''val_loss'', Scalar 10)])"
    by (subst validation_step_eq [OF src tgt refl refl refl refl])
       (simp add: binary_cross_entropy_with_logits_def mean_dice_def select_channel_def
          forward_def Let_def example_framework_def example_state_def example_module_def
          example_metric_def)
  note t = only_training_step_casts
             [of example_framework "[5, 7]" "[3, 1]" 0 ?st "\<lambda>x. x" "([5, 7], [3, 1])" ?b
                 "[5, 7]" "[3, 1]" "[7, 9]" "[1, 2]" "Dict [(''val_loss'', Scalar 10)]"]
  note u = only_training_step_casts
             [of ?id "[5, 7]" "[3, 1]" 0 ?st "\<lambda>x. x" "([5, 7], [3, 1])" ?b
                 "[5, 7]" "[3, 1]" "[7, 9]" "[1, 2]" "Dict [(''val_loss'', Scalar 10)]"]
  from t have t1: "fst (training_step example_framework ([5, 7], [3, 1]) 0 ?st) =
     (case binary_cross_entropy_with_logits example_framework
             (fst (forward example_framework (self ?st)
                     (tensor_float example_framework [5, 7]) (net_state ?st))) [3, 1] of
        Inl e \<Rightarrow> Inl e
      | Inr loss \<Rightarrow>
          Inr (Dict [(''loss'', Scalar loss),
                     (''log'', Dict [(''Binary Cross Entropy Loss'', Scalar loss)]),
                     (''progress_bar'', Dict [(''Binary Cross Entropy Loss'', Scalar loss)])]))"
    by (rule conjunct1)
  from u have u1: "fst (training_step ?id ([5, 7], [3, 1]) 0 ?st) =
     (case binary_cross_entropy_with_logits ?id
             (fst (forward ?id (self ?st) (tensor_float ?id [5, 7]) (net_state ?st))) [3, 1] of
        Inl e \<Rightarrow> Inl e
      | Inr loss \<Rightarrow>
          Inr (Dict [(''loss'', Scalar loss),
                     (''log'', Dict [(''Binary Cross Entropy Loss'', Scalar loss)]),
                     (''progress_bar'', Dict [(''Binary Cross Entropy Loss'', Scalar loss)])]))"
    by (rule conjunct1)
  from t have t3: "test_step ?id ([5, 7], [3, 1]) 0 ?st =
                   test_step example_framework ([5, 7], [3, 1]) 0 ?st"
    by (rule conjunct2 [THEN conjunct2, THEN conjunct1])
  from t have t4: "fst (test_step example_framework ([5, 7], [3, 1]) 0 ?st) =
     (case mean_dice example_framework
             (dice_coeff (self ?st)
                (fst (forward example_framework (self ?st) [5, 7] (net_state ?st))) [3, 1]) of
        Inl e \<Rightarrow> Inl e
      | Inr d \<Rightarrow> Inr (Dict [(''curr_mean_dice'', Scalar d)]))"
    by (rule conjunct2 [THEN conjunct2, THEN conjunct2, THEN conjunct1])
  from t src tgt ok have t7: "Dict [(''val_loss'', Scalar 10)] =
     Dict [(''val_loss'',
            Scalar (bce_mean example_framework
                      (fst (forward example_framework (self ?st) [5, 7] (net_state ?st)))
                      [3, 1]))]"
    by blast
  have a: "fst (training_step example_framework ([5, 7], [3, 1]) 0 ?st) =
     Inr (Dict [(''loss'', Scalar 12),
                (''log'', Dict [(''Binary Cross Entropy Loss'', Scalar 12)]),
                (''progress_bar'', Dict [(''Binary Cross Entropy Loss'', Scalar 12)])])"
    by (subst t1)
       (simp add: binary_cross_entropy_with_logits_def forward_def example_framework_def
          example_state_def example_module_def)
  have b: "fst (training_step ?id ([5, 7], [3, 1]) 0 ?st) =
     Inr (Dict [(''loss'', Scalar 10),
                (''log'', Dict [(''Binary Cross Entropy Loss'', Scalar 10)]),
                (''progress_bar'', Dict [(''Binary Cross Entropy Loss'', Scalar 10)])])"
    by (subst u1)
       (simp add: binary_cross_entropy_with_logits_def forward_def example_framework_def
          example_state_def example_module_def)
  have c: "fst (test_step example_framework ([5, 7], [3, 1]) 0 ?st) =
     Inr (Dict [(''curr_mean_dice'', Scalar 14)])"
    by (subst t4)
       (simp add: mean_dice_def select_channel_def forward_def Let_def
          example_framework_def example_state_def example_module_def example_metric_def)
  from a b c t3 ok t7 show ?thesis by blast
qed

end
